theory Spec2Isabelle
  imports Main
begin

section \<open>Values\<close>

text \<open>
  The values that travel through the models and entities are the JSON-compatible Python
  values: \<open>None\<close>, booleans, integers, strings, lists and dicts with string keys. A dict is
  a partial map, so that equality of two dicts is Python's (the order of insertion does not
  count).
\<close>

datatype json =
    JNull
  | JBool bool
  | JNum int
  | JStr string
  | JList "json list"
  | JDict "string \<Rightarrow> json option"

type_synonym jdict = "string \<rightharpoonup> json"

text \<open>Python's truth value of an object, as tested by \<^verbatim>\<open>if x:\<close>.\<close>

fun truthy :: "json \<Rightarrow> bool" where
  "truthy JNull = False"
| "truthy (JBool b) = b"
| "truthy (JNum n) = (n \<noteq> 0)"
| "truthy (JStr s) = (s \<noteq> [])"
| "truthy (JList xs) = (xs \<noteq> [])"
| "truthy (JDict d) = (d \<noteq> Map.empty)"

text \<open>
  Python's \<^verbatim>\<open>==\<close> on these values. \<^verbatim>\<open>bool\<close> is a subclass of \<^verbatim>\<open>int\<close>, so \<^verbatim>\<open>True == 1\<close> and
  \<^verbatim>\<open>False == 0\<close>; lists are compared element by element and dicts key by key with the
  same equality, and values of different kinds are otherwise unequal. Two values are equal
  for Python exactly when they agree once every boolean is read as its integer.
\<close>

primrec py_norm :: "json \<Rightarrow> json" where
  "py_norm JNull = JNull"
| "py_norm (JBool b) = JNum (if b then 1 else 0)"
| "py_norm (JNum n) = JNum n"
| "py_norm (JStr s) = JStr s"
| "py_norm (JList xs) = JList (map py_norm xs)"
| "py_norm (JDict d) = JDict (map_option py_norm \<circ> d)"

definition py_eq :: "json \<Rightarrow> json \<Rightarrow> bool" where
  "py_eq a b = (py_norm a = py_norm b)"

section \<open>Errors\<close>

text \<open>
  Every exception class that the two modules raise or let through is a constructor.
  \<open>TypeError\<close> is what Python raises when a call does not bind a required parameter and what
  \<^verbatim>\<open>attr.validators.instance_of\<close> raises; \<open>BackendError\<close> stands for any exception of the
  persistence layer that is not one of the library's own classes.
\<close>

datatype error =
    TypeError string
  | NotImplementedError string
  | ModelDataError string
  | ModelNotYetLoadedError
  | EntityError string
  | EntityCreationError "error option"
  | EntityNotFoundError
  | EntityNotYetPersistedError string
  | EntityPreviouslyCreatedError string
  | BackendError string

section \<open>What the modules import\<close>

text \<open>
  A validator is called by \<^verbatim>\<open>attrs\<close> on the data of a model and either returns or raises:
  \<open>None\<close> is acceptance, \<open>Some e\<close> the exception raised.
\<close>

type_synonym validator = "jdict \<Rightarrow> error option"

text \<open>
  The constants of \<^verbatim>\<open>coalaip.context_urls\<close> and the validators of
  \<^verbatim>\<open>coalaip.model_validators\<close> are imported by \<^verbatim>\<open>models.py\<close> and not defined there: they are
  parameters of everything below.
\<close>

record deps =
  COALAIP :: string
  SCHEMA :: string
  is_work_model :: validator
  is_manifestation_model :: validator
  is_right_model :: validator
  is_copyright_model :: validator

text \<open>
  \<^verbatim>\<open>attr.validators.instance_of(dict)\<close>, the default validator of both model classes: the
  data of this embedding is a dict by its type, so it accepts.
\<close>

definition instance_of_dict :: validator where
  "instance_of_dict d = None"

definition get_default_ld_context :: "deps \<Rightarrow> json" where
  "get_default_ld_context I = JList [JStr (COALAIP I), JStr (SCHEMA I)]"

section \<open>models.py\<close>

subsection \<open>Model\<close>

record Model =
  data :: jdict
  ld_type :: string
  ld_context :: json
  validator :: validator

text \<open>
  The generated \<^verbatim>\<open>__init__\<close> of the frozen class \<^verbatim>\<open>Model\<close>. \<^verbatim>\<open>ld_type\<close> has no default, so a
  call without it does not bind; \<^verbatim>\<open>ld_context\<close> and \<^verbatim>\<open>validator\<close> take their defaults when
  they are not passed. The validators then run in the order of the attributes: the
  model's own validator on \<^verbatim>\<open>data\<close>, \<^verbatim>\<open>instance_of(str)\<close> on \<^verbatim>\<open>ld_type\<close>.
\<close>

definition Model_init ::
  "deps \<Rightarrow> jdict \<Rightarrow> json option \<Rightarrow> json option \<Rightarrow> validator option \<Rightarrow> error + Model" where
  "Model_init I d ty ctx v =
     (case ty of
        None \<Rightarrow> Inl (TypeError ''__init__() missing 1 required positional argument: ld_type'')
      | Some t \<Rightarrow>
          let c = (case ctx of None \<Rightarrow> get_default_ld_context I | Some c' \<Rightarrow> c');
              vd = (case v of None \<Rightarrow> instance_of_dict | Some v' \<Rightarrow> v')
          in (case vd d of
                Some e \<Rightarrow> Inl e
              | None \<Rightarrow>
                  (case t of
                     JStr s \<Rightarrow> Inr \<lparr>data = d, ld_type = s, ld_context = c, validator = vd\<rparr>
                   | _ \<Rightarrow> Inl (TypeError ''ld_type must be str''))))"

subsection \<open>LazyLoadableModel\<close>

record LazyLoadableModel =
  lazy_ld_type :: string
  lazy_ld_context :: json
  lazy_validator :: validator
  loaded_model :: "Model option"

text \<open>
  \<^verbatim>\<open>LazyLoadableModel.__init__(self, ld_type, ld_context=None, validator=instance_of(dict),
  data=None)\<close>. The context falls back to the default when it is not passed or falsy
  (\<^verbatim>\<open>ld_context or get_default_ld_context()\<close>), \<^verbatim>\<open>attr.validate\<close>
  checks that \<^verbatim>\<open>ld_type\<close> is a string, and the inner model is built only under
  \<^verbatim>\<open>if data:\<close>, the truth value of the dict.
\<close>

definition LazyLoadableModel_init ::
  "deps \<Rightarrow> json option \<Rightarrow> json option \<Rightarrow> validator option \<Rightarrow> jdict option
     \<Rightarrow> error + LazyLoadableModel" where
  "LazyLoadableModel_init I ty ctx v d =
     (case ty of
        None \<Rightarrow> Inl (TypeError ''__init__() missing 1 required positional argument: ld_type'')
      | Some t \<Rightarrow>
          let c = (case ctx of
                     None \<Rightarrow> get_default_ld_context I
                   | Some c' \<Rightarrow> if truthy c' then c' else get_default_ld_context I);
              vd = (case v of None \<Rightarrow> instance_of_dict | Some v' \<Rightarrow> v')
          in (case t of
                JStr s \<Rightarrow>
                  let self = \<lparr>lazy_ld_type = s, lazy_ld_context = c, lazy_validator = vd,
                              loaded_model = None\<rparr>
                  in (case d of
                        None \<Rightarrow> Inr self
                      | Some dd \<Rightarrow>
                          if dd \<noteq> Map.empty
                          then (case Model_init I dd (Some (JStr s)) (Some c) (Some vd) of
                                  Inl e \<Rightarrow> Inl e
                                | Inr m \<Rightarrow> Inr (self\<lparr>loaded_model := Some m\<rparr>))
                          else Inr self)
              | _ \<Rightarrow> Inl (TypeError ''ld_type must be str'')))"

text \<open>The property \<^verbatim>\<open>LazyLoadableModel.data\<close>.\<close>

definition LazyLoadableModel_data :: "LazyLoadableModel \<Rightarrow> error + jdict" where
  "LazyLoadableModel_data self =
     (case loaded_model self of
        None \<Rightarrow> Inl ModelNotYetLoadedError
      | Some m \<Rightarrow> Inr (data m))"

subsection \<open>The persistence plugin\<close>

text \<open>
  \<^verbatim>\<open>AbstractPlugin\<close> is an interface to a backend outside the library. A plugin is given
  by what each of its operations answers after a given history of calls, so that a backend
  with a store of its own is covered; an operation either returns or raises. The history
  of calls is the only state outside the objects, and every call of an operation is
  appended to it.
\<close>

datatype plugin_call =
    SaveCall jdict json
  | LoadCall string
  | StatusCall string

type_synonym trace = "plugin_call list"

record plugin =
  save :: "trace \<Rightarrow> jdict \<Rightarrow> json \<Rightarrow> error + string"
  load :: "trace \<Rightarrow> string \<Rightarrow> error + jdict"
  get_status :: "trace \<Rightarrow> string \<Rightarrow> error + json"

definition plugin_save :: "plugin \<Rightarrow> jdict \<Rightarrow> json \<Rightarrow> trace \<Rightarrow> (error + string) \<times> trace" where
  "plugin_save P d user tr = (save P tr d user, tr @ [SaveCall d user])"

definition plugin_load :: "plugin \<Rightarrow> string \<Rightarrow> trace \<Rightarrow> (error + jdict) \<times> trace" where
  "plugin_load P persist_id tr = (load P tr persist_id, tr @ [LoadCall persist_id])"

definition plugin_get_status :: "plugin \<Rightarrow> string \<Rightarrow> trace \<Rightarrow> (error + json) \<times> trace" where
  "plugin_get_status P persist_id tr =
     (get_status P tr persist_id, tr @ [StatusCall persist_id])"

text \<open>The number of \<^verbatim>\<open>plugin.load\<close> calls in a history.\<close>

fun is_LoadCall :: "plugin_call \<Rightarrow> bool" where
  "is_LoadCall (LoadCall p) = True"
| "is_LoadCall c = False"

definition load_calls :: "trace \<Rightarrow> nat" where
  "load_calls tr = length (filter is_LoadCall tr)"

subsection \<open>Data formats and the extraction of Linked Data\<close>

datatype DataFormat = Fmt_json | Fmt_jsonld | Fmt_ipld

text \<open>
  Modelled from the spec: \<^verbatim>\<open>_data_format_resolver\<close> of \<^verbatim>\<open>coalaip.data_formats\<close> is imported
  and not among the sources. Given a format and a handler for each format it returns the
  matching handler. The formats are the closed enumeration here, so the failure on an
  unknown format string has no input.
\<close>

definition data_format_resolver :: "DataFormat \<Rightarrow> 'a \<Rightarrow> 'a \<Rightarrow> 'a \<Rightarrow> 'a" where
  "data_format_resolver data_format on_jsonld on_json on_ipld =
     (case data_format of
        Fmt_jsonld \<Rightarrow> on_jsonld
      | Fmt_json \<Rightarrow> on_json
      | Fmt_ipld \<Rightarrow> on_ipld)"

text \<open>
  The result of an extraction. As in Python, a field that was not found holds
  \<^verbatim>\<open>None\<close>, which is \<open>JNull\<close>.
\<close>

record ExtractedLinkedDataResult =
  ex_data :: jdict
  ex_ld_type :: json
  ex_ld_context :: json
  ex_ld_id :: json

definition get_or_None :: "jdict \<Rightarrow> string \<Rightarrow> json" where
  "get_or_None d k = (case d k of None \<Rightarrow> JNull | Some v \<Rightarrow> v)"

text \<open>
  Modelled from the spec: \<^verbatim>\<open>_extract_ld_data\<close> of \<^verbatim>\<open>coalaip.data_formats\<close> is imported and
  not among the sources. For \<^verbatim>\<open>jsonld\<close> the keys \<^verbatim>\<open>@type\<close>, \<^verbatim>\<open>@context\<close> and \<^verbatim>\<open>@id\<close> are taken
  out of the data, for \<^verbatim>\<open>json\<close> the key \<^verbatim>\<open>type\<close>; every other key stays in the data, and
  \<^verbatim>\<open>ipld\<close> is not implemented. Called without a format, as \<^verbatim>\<open>LazyLoadableModel.load\<close> does,
  it extracts as \<^verbatim>\<open>jsonld\<close>.
\<close>

definition extract_ld_data :: "jdict \<Rightarrow> DataFormat option \<Rightarrow> error + ExtractedLinkedDataResult" where
  "extract_ld_data d data_format =
     (case (case data_format of None \<Rightarrow> Fmt_jsonld | Some f \<Rightarrow> f) of
        Fmt_jsonld \<Rightarrow>
          Inr \<lparr>ex_data = d(''@type'' := None, ''@context'' := None, ''@id'' := None),
               ex_ld_type = get_or_None d ''@type'',
               ex_ld_context = get_or_None d ''@context'',
               ex_ld_id = get_or_None d ''@id''\<rparr>
      | Fmt_json \<Rightarrow>
          Inr \<lparr>ex_data = d(''type'' := None),
               ex_ld_type = get_or_None d ''type'',
               ex_ld_context = JNull,
               ex_ld_id = JNull\<rparr>
      | Fmt_ipld \<Rightarrow> Inl (NotImplementedError ''Extracting data from IPLD has not been implemented yet''))"

subsection \<open>LazyLoadableModel.load\<close>

text \<open>
  A method of an object returns its result, the object as the call left it and the
  history of plugin calls. An exception leaves the object as it was at the raise, and the
  plugin calls made before it stay made.

  \<^verbatim>\<open>if self.loaded_model:\<close> tests a \<^verbatim>\<open>Model\<close> instance or \<^verbatim>\<open>None\<close>; the class defines neither
  \<^verbatim>\<open>__bool__\<close> nor \<^verbatim>\<open>__len__\<close>, so every instance is truthy. The two sanity checks are
  guarded by the truth value of the extracted field, and their \<^verbatim>\<open>!=\<close> is Python's, \<open>py_eq\<close>
  negated.
\<close>

definition LazyLoadableModel_load ::
  "deps \<Rightarrow> LazyLoadableModel \<Rightarrow> string \<Rightarrow> plugin \<Rightarrow> trace
     \<Rightarrow> (error + unit) \<times> LazyLoadableModel \<times> trace" where
  "LazyLoadableModel_load I self persist_id P tr =
     (if loaded_model self \<noteq> None then (Inr (), self, tr)
      else
        (case plugin_load P persist_id tr of
           (Inl e, tr') \<Rightarrow> (Inl e, self, tr')
         | (Inr persist_data, tr') \<Rightarrow>
             (case extract_ld_data persist_data None of
                Inl e \<Rightarrow> (Inl e, self, tr')
              | Inr extracted_ld_result \<Rightarrow>
                  let loaded_data = ex_data extracted_ld_result;
                      loaded_type = ex_ld_type extracted_ld_result;
                      loaded_context = ex_ld_context extracted_ld_result
                  in if truthy loaded_type \<and> \<not> py_eq loaded_type (JStr (lazy_ld_type self))
                     then (Inl (ModelDataError ''Loaded @type differs from the @type of the entity''),
                           self, tr')
                     else if truthy loaded_context \<and> \<not> py_eq loaded_context (lazy_ld_context self)
                     then (Inl (ModelDataError ''Loaded context differs from the context of the entity''),
                           self, tr')
                     else
                       (case Model_init I loaded_data (Some (JStr (lazy_ld_type self)))
                               (Some (lazy_ld_context self)) (Some (lazy_validator self)) of
                          Inl e \<Rightarrow> (Inl e, self, tr')
                        | Inr m \<Rightarrow> (Inr (), self\<lparr>loaded_model := Some m\<rparr>, tr')))))"

text \<open>
  The binding of the arguments of a call of \<^verbatim>\<open>load(self, persist_id, *, plugin)\<close>: the call
  takes exactly one positional argument and the keyword \<^verbatim>\<open>plugin\<close>, both without a
  default. A call that does not bind raises \<^verbatim>\<open>TypeError\<close> before the body runs.
\<close>

definition call_LazyLoadableModel_load ::
  "deps \<Rightarrow> LazyLoadableModel \<Rightarrow> string list \<Rightarrow> plugin option \<Rightarrow> trace
     \<Rightarrow> (error + unit) \<times> LazyLoadableModel \<times> trace" where
  "call_LazyLoadableModel_load I self args kw_plugin tr =
     (case (args, kw_plugin) of
        ([persist_id], Some P) \<Rightarrow> LazyLoadableModel_load I self persist_id P tr
      | _ \<Rightarrow> (Inl (TypeError ''load() missing required arguments''), self, tr))"

subsection \<open>The model factories\<close>

datatype model_cls = Model_cls | LazyLoadableModel_cls

datatype model = AModel Model | ALazy LazyLoadableModel

text \<open>
  The keyword arguments of a factory call: a field is \<open>None\<close> when the keyword is not
  passed.
\<close>

record kwargs =
  kw_data :: "jdict option"
  kw_ld_type :: "json option"
  kw_ld_context :: "json option"
  kw_model_cls :: "model_cls option"
  kw_validator :: "validator option"

text \<open>
  \<^verbatim>\<open>_model_factory(*, data, model_cls=Model, **kwargs)\<close>: \<^verbatim>\<open>data\<close> is keyword-only and has no
  default, so a call without it raises \<^verbatim>\<open>TypeError\<close>.
\<close>

definition model_factory :: "deps \<Rightarrow> kwargs \<Rightarrow> error + model" where
  "model_factory I kw =
     (case kw_data kw of
        None \<Rightarrow> Inl (TypeError ''_model_factory() missing 1 required keyword-only argument: data'')
      | Some d \<Rightarrow>
          (case (case kw_model_cls kw of None \<Rightarrow> Model_cls | Some c \<Rightarrow> c) of
             Model_cls \<Rightarrow>
               map_sum id AModel
                 (Model_init I d (kw_ld_type kw) (kw_ld_context kw) (kw_validator kw))
           | LazyLoadableModel_cls \<Rightarrow>
               map_sum id ALazy
                 (LazyLoadableModel_init I (kw_ld_type kw) (kw_ld_context kw) (kw_validator kw)
                    (Some d))))"

definition default_validator :: "validator \<Rightarrow> kwargs \<Rightarrow> validator" where
  "default_validator v kw = (case kw_validator kw of None \<Rightarrow> v | Some v' \<Rightarrow> v')"

definition default_ld_type :: "string \<Rightarrow> kwargs \<Rightarrow> json" where
  "default_ld_type t kw = (case kw_ld_type kw of None \<Rightarrow> JStr t | Some t' \<Rightarrow> t')"

definition default_ld_context :: "json \<Rightarrow> kwargs \<Rightarrow> json" where
  "default_ld_context c kw = (case kw_ld_context kw of None \<Rightarrow> c | Some c' \<Rightarrow> c')"

definition work_model_factory :: "deps \<Rightarrow> kwargs \<Rightarrow> error + model" where
  "work_model_factory I kw =
     model_factory I
       (kw\<lparr>kw_validator := Some (default_validator (is_work_model I) kw),
           kw_ld_type := Some (JStr ''CreativeWork'')\<rparr>)"

text \<open>
  Modelled from the spec: \<^verbatim>\<open>extend_dict\<close> of \<^verbatim>\<open>coalaip.utils\<close> is imported and not among the
  sources. The spec describes its one call, \<^verbatim>\<open>extend_dict({'isManifestation': True}, data)\<close>,
  as injecting the entry into the data unconditionally: the entries of the first dict are
  written into the second.
\<close>

definition extend_dict :: "jdict \<Rightarrow> jdict \<Rightarrow> jdict" where
  "extend_dict x y = y ++ x"

text \<open>
  \<^verbatim>\<open>manifestation_model_factory(*, data, validator=..., ld_type='CreativeWork', **kwargs)\<close>:
  \<^verbatim>\<open>data\<close> is required here too.
\<close>

definition manifestation_model_factory :: "deps \<Rightarrow> kwargs \<Rightarrow> error + model" where
  "manifestation_model_factory I kw =
     (case kw_data kw of
        None \<Rightarrow> Inl (TypeError ''manifestation_model_factory() missing 1 required keyword-only argument: data'')
      | Some d \<Rightarrow>
          model_factory I
            (kw\<lparr>kw_data := Some (extend_dict [''isManifestation'' \<mapsto> JBool True] d),
                kw_validator := Some (default_validator (is_manifestation_model I) kw),
                kw_ld_type := Some (default_ld_type ''CreativeWork'' kw)\<rparr>))"

definition right_model_factory :: "deps \<Rightarrow> kwargs \<Rightarrow> error + model" where
  "right_model_factory I kw =
     model_factory I
       (kw\<lparr>kw_validator := Some (default_validator (is_right_model I) kw),
           kw_ld_type := Some (default_ld_type ''Right'' kw),
           kw_ld_context := Some (default_ld_context (JStr (COALAIP I)) kw)\<rparr>)"

definition copyright_model_factory :: "deps \<Rightarrow> kwargs \<Rightarrow> error + model" where
  "copyright_model_factory I kw =
     model_factory I
       (kw\<lparr>kw_validator := Some (default_validator (is_copyright_model I) kw),
           kw_ld_context := Some (default_ld_context (JStr (COALAIP I)) kw),
           kw_ld_type := Some (JStr ''Copyright'')\<rparr>)"

definition rights_assignment_model_factory :: "deps \<Rightarrow> kwargs \<Rightarrow> error + model" where
  "rights_assignment_model_factory I kw =
     model_factory I
       (kw\<lparr>kw_ld_context := Some (default_ld_context (JStr (COALAIP I)) kw),
           kw_ld_type := Some (JStr ''RightsTransferAction'')\<rparr>)"

section \<open>entities.py\<close>

datatype entity_cls = Work | Manifestation | Right | Copyright | RightsAssignment

text \<open>
  An entity knows its class, holds its model and the plugin it was built with, and its
  \<^verbatim>\<open>persist_id\<close> is \<^verbatim>\<open>None\<close> until it is set. A user is any value the persistence layer
  understands.
\<close>

record Entity =
  cls :: entity_cls
  model :: model
  plugin :: plugin
  persist_id :: "string option"

definition Entity_init :: "entity_cls \<Rightarrow> model \<Rightarrow> plugin \<Rightarrow> Entity" where
  "Entity_init c m P = \<lparr>cls = c, model = m, plugin = P, persist_id = None\<rparr>"

text \<open>The class method \<^verbatim>\<open>generate_model\<close> of each concrete class.\<close>

fun generate_model :: "deps \<Rightarrow> entity_cls \<Rightarrow> kwargs \<Rightarrow> error + model" where
  "generate_model I Work kw = work_model_factory I kw"
| "generate_model I Manifestation kw = manifestation_model_factory I kw"
| "generate_model I Right kw = right_model_factory I kw"
| "generate_model I Copyright kw = copyright_model_factory I kw"
| "generate_model I RightsAssignment kw = rights_assignment_model_factory I kw"

text \<open>The attributes \<^verbatim>\<open>data\<close>, \<^verbatim>\<open>ld_type\<close> and \<^verbatim>\<open>ld_context\<close> of either kind of model.\<close>

fun model_data :: "model \<Rightarrow> error + jdict" where
  "model_data (AModel m) = Inr (data m)"
| "model_data (ALazy lm) = LazyLoadableModel_data lm"

fun model_ld_type :: "model \<Rightarrow> string" where
  "model_ld_type (AModel m) = ld_type m"
| "model_ld_type (ALazy lm) = lazy_ld_type lm"

fun model_ld_context :: "model \<Rightarrow> json" where
  "model_ld_context (AModel m) = ld_context m"
| "model_ld_context (ALazy lm) = lazy_ld_context lm"

text \<open>
  \<^verbatim>\<open>Entity.load\<close>. Only a \<^verbatim>\<open>LazyLoadableModel\<close> has the attribute \<^verbatim>\<open>load\<close>. The source
  calls \<^verbatim>\<open>self.model.load()\<close>, with no argument.
\<close>

definition Entity_load :: "deps \<Rightarrow> Entity \<Rightarrow> trace \<Rightarrow> (error + unit) \<times> Entity \<times> trace" where
  "Entity_load I self tr =
     (case model self of
        AModel m \<Rightarrow> (Inr (), self, tr)
      | ALazy lm \<Rightarrow>
          (case persist_id self of
             None \<Rightarrow>
               (Inl (EntityNotYetPersistedError
                       ''Entities cannot be loaded until they have been persisted''),
                self, tr)
           | Some pid \<Rightarrow>
               (case call_LazyLoadableModel_load I lm [] None tr of
                  (r, lm', tr') \<Rightarrow> (r, self\<lparr>model := ALazy lm'\<rparr>, tr'))))"

text \<open>
  The property \<^verbatim>\<open>Entity.data\<close>: the data of the model, and on \<^verbatim>\<open>ModelNotYetLoadedError\<close> a
  call of \<^verbatim>\<open>self.load()\<close> and a second read.
\<close>

definition Entity_data :: "deps \<Rightarrow> Entity \<Rightarrow> trace \<Rightarrow> (error + jdict) \<times> Entity \<times> trace" where
  "Entity_data I self tr =
     (case model_data (model self) of
        Inr d \<Rightarrow> (Inr d, self, tr)
      | Inl e \<Rightarrow>
          if e = ModelNotYetLoadedError
          then (case Entity_load I self tr of
                  (Inl e', self', tr') \<Rightarrow> (Inl e', self', tr')
                | (Inr u, self', tr') \<Rightarrow> (model_data (model self'), self', tr'))
          else (Inl e, self, tr))"

text \<open>The property \<^verbatim>\<open>Entity.status\<close>; it returns \<^verbatim>\<open>None\<close> for an entity without an id.\<close>

definition Entity_status :: "Entity \<Rightarrow> trace \<Rightarrow> (error + json) \<times> trace" where
  "Entity_status self tr =
     (case persist_id self of
        None \<Rightarrow> (Inr JNull, tr)
      | Some pid \<Rightarrow> plugin_get_status (plugin self) pid tr)"





text \<open>
  \<^verbatim>\<open>from_persist_id\<close>: the model is generated with the one keyword
  \<^verbatim>\<open>model_cls=LazyLoadableModel\<close>.
\<close>

definition from_persist_id ::
  "deps \<Rightarrow> entity_cls \<Rightarrow> string \<Rightarrow> bool \<Rightarrow> plugin \<Rightarrow> trace \<Rightarrow> (error + Entity) \<times> trace" where
  "from_persist_id I c pid force_load P tr =
     (case generate_model I c
             \<lparr>kw_data = None, kw_ld_type = None, kw_ld_context = None,
              kw_model_cls = Some LazyLoadableModel_cls, kw_validator = None\<rparr> of
        Inl e \<Rightarrow> (Inl e, tr)
      | Inr m \<Rightarrow>
          let entity = (Entity_init c m P)\<lparr>persist_id := Some pid\<rparr>
          in if force_load
             then (case Entity_load I entity tr of
                     (Inl e, entity', tr') \<Rightarrow> (Inl e, tr')
                   | (Inr u, entity', tr') \<Rightarrow> (Inr entity', tr'))
             else (Inr entity, tr))"

definition to_json :: "deps \<Rightarrow> Entity \<Rightarrow> trace \<Rightarrow> (error + jdict) \<times> Entity \<times> trace" where
  "to_json I self tr =
     (case Entity_data I self tr of
        (Inl e, self', tr') \<Rightarrow> (Inl e, self', tr')
      | (Inr d, self', tr') \<Rightarrow>
          (Inr (d(''type'' \<mapsto> JStr (model_ld_type (model self')))), self', tr'))"

definition to_jsonld :: "deps \<Rightarrow> Entity \<Rightarrow> trace \<Rightarrow> (error + jdict) \<times> Entity \<times> trace" where
  "to_jsonld I self tr =
     (case Entity_data I self tr of
        (Inl e, self', tr') \<Rightarrow> (Inl e, self', tr')
      | (Inr d, self', tr') \<Rightarrow>
          (Inr (d(''@context'' \<mapsto> model_ld_context (model self'),
                  ''@type'' \<mapsto> JStr (model_ld_type (model self')),
                  ''@id'' \<mapsto> JStr [])),
           self', tr'))"

definition to_ipld :: "deps \<Rightarrow> Entity \<Rightarrow> trace \<Rightarrow> (error + jdict) \<times> Entity \<times> trace" where
  "to_ipld I self tr = (Inl (NotImplementedError ''to_ipld() has not been implemented yet''), self, tr)"

definition to_format ::
  "deps \<Rightarrow> Entity \<Rightarrow> DataFormat \<Rightarrow> trace \<Rightarrow> (error + jdict) \<times> Entity \<times> trace" where
  "to_format I self data_format tr =
     data_format_resolver data_format (to_jsonld I) (to_json I) (to_ipld I) self tr"

text \<open>
  \<^verbatim>\<open>Entity.create\<close>, inherited by every class but \<^verbatim>\<open>RightsAssignment\<close>. The call of
  \<^verbatim>\<open>plugin.save\<close> is not inside a \<^verbatim>\<open>try\<close>: what it raises leaves \<^verbatim>\<open>create\<close> as it is, before
  the assignment to \<^verbatim>\<open>persist_id\<close>.
\<close>

definition Entity_create ::
  "deps \<Rightarrow> Entity \<Rightarrow> json \<Rightarrow> DataFormat \<Rightarrow> trace \<Rightarrow> (error + string) \<times> Entity \<times> trace" where
  "Entity_create I self user data_format tr =
     (case persist_id self of
        Some pid \<Rightarrow> (Inl (EntityPreviouslyCreatedError pid), self, tr)
      | None \<Rightarrow>
          (case to_format I self data_format tr of
             (Inl e, self', tr') \<Rightarrow> (Inl e, self', tr')
           | (Inr entity_data, self', tr') \<Rightarrow>
               (case plugin_save (plugin self') entity_data user tr' of
                  (Inl e, tr'') \<Rightarrow> (Inl e, self', tr'')
                | (Inr create_id, tr'') \<Rightarrow>
                    (Inr create_id, self'\<lparr>persist_id := Some create_id\<rparr>, tr''))))"

text \<open>\<^verbatim>\<open>RightsAssignment.create(self, *args, **kwargs)\<close> raises whatever it is given.\<close>

definition RightsAssignment_create ::
  "deps \<Rightarrow> Entity \<Rightarrow> json \<Rightarrow> DataFormat \<Rightarrow> trace \<Rightarrow> (error + string) \<times> Entity \<times> trace" where
  "RightsAssignment_create I self user data_format tr =
     (Inl (EntityError ''RightsAssignments can only created through transer transactions.''),
      self, tr)"

text \<open>The method \<^verbatim>\<open>create\<close> that a call on an entity resolves to, by its class.\<close>

definition create ::
  "deps \<Rightarrow> Entity \<Rightarrow> json \<Rightarrow> DataFormat \<Rightarrow> trace \<Rightarrow> (error + string) \<times> Entity \<times> trace" where
  "create I self user data_format tr =
     (case cls self of
        RightsAssignment \<Rightarrow> RightsAssignment_create I self user data_format tr
      | _ \<Rightarrow> Entity_create I self user data_format tr)"

section \<open>Objects for the examples\<close>

text \<open>
  An instance of the imported parts whose validators accept every dict, and a plugin that
  answers every call of an operation with the same given result. The two URLs stand for
  the constants of \<^verbatim>\<open>context_urls\<close>.
\<close>

definition accept_all :: validator where
  "accept_all d = None"

definition example_deps :: deps where
  "example_deps =
     \<lparr>COALAIP = ''https://coalaip.example/context'', SCHEMA = ''http://schema.org/'',
      is_work_model = accept_all, is_manifestation_model = accept_all,
      is_right_model = accept_all, is_copyright_model = accept_all\<rparr>"

definition const_save :: "error + string \<Rightarrow> trace \<Rightarrow> jdict \<Rightarrow> json \<Rightarrow> error + string" where
  "const_save r tr d user = r"

definition const_load :: "error + jdict \<Rightarrow> trace \<Rightarrow> string \<Rightarrow> error + jdict" where
  "const_load r tr pid = r"

definition const_get_status :: "error + json \<Rightarrow> trace \<Rightarrow> string \<Rightarrow> error + json" where
  "const_get_status r tr pid = r"

definition stub_plugin :: "error + string \<Rightarrow> error + jdict \<Rightarrow> plugin" where
  "stub_plugin on_save on_load =
     \<lparr>save = const_save on_save, load = const_load on_load,
      get_status = const_get_status (Inr (JStr ''persisted''))\<rparr>"

definition example_plugin :: plugin where
  "example_plugin = stub_plugin (Inr ''id1'') (Inr [''name'' \<mapsto> JStr ''Ayy''])"

text \<open>A plugin whose backend refuses every \<^verbatim>\<open>save\<close> with an exception of its own.\<close>

definition failing_plugin :: plugin where
  "failing_plugin = stub_plugin (Inl (BackendError ''backend down'')) (Inl EntityNotFoundError)"

text \<open>A plugin whose backend holds a document with an empty \<^verbatim>\<open>@type\<close>.\<close>

definition empty_type_plugin :: plugin where
  "empty_type_plugin = stub_plugin (Inr ''id1'') (Inr [''@type'' \<mapsto> JStr []])"

text \<open>A model of a work as \<^verbatim>\<open>Work.from_data\<close> builds it, and a lazy model not yet loaded.\<close>

definition example_model :: Model where
  "example_model =
     \<lparr>data = [''name'' \<mapsto> JStr ''Ayy''], ld_type = ''CreativeWork'',
      ld_context = get_default_ld_context example_deps, validator = accept_all\<rparr>"

definition empty_lazy_model :: LazyLoadableModel where
  "empty_lazy_model =
     \<lparr>lazy_ld_type = ''CreativeWork'', lazy_ld_context = get_default_ld_context example_deps,
      lazy_validator = accept_all, loaded_model = None\<rparr>"

text \<open>A plugin whose backend holds a document of another type.\<close>

definition other_type_plugin :: plugin where
  "other_type_plugin =
     stub_plugin (Inr ''id1'') (Inr [''@type'' \<mapsto> JStr ''Person'', ''name'' \<mapsto> JStr ''Ayy''])"

text \<open>
  A work that is not persisted yet, with each of the two plugins, and a rights assignment
  as \<^verbatim>\<open>RightsAssignment.from_data({}, plugin=...)\<close> builds it.
\<close>

definition example_work :: Entity where
  "example_work = Entity_init Work (AModel example_model) example_plugin"

definition unsaved_work :: Entity where
  "unsaved_work = Entity_init Work (AModel example_model) failing_plugin"

definition example_rights_assignment :: Entity where
  "example_rights_assignment =
     Entity_init RightsAssignment
       (AModel \<lparr>data = Map.empty, ld_type = ''RightsTransferAction'',
                ld_context = JStr (COALAIP example_deps), validator = instance_of_dict\<rparr>)
       example_plugin"

text \<open>An entity with a lazy model that is still empty and an id on the persistence layer.\<close>

definition lazy_work :: Entity where
  "lazy_work = (Entity_init Work (ALazy empty_lazy_model) example_plugin)\<lparr>persist_id := Some ''id1''\<rparr>"

text \<open>
  The document of \<open>empty_type_plugin\<close>, the JSON-LD form of \<open>example_model\<close>, and a rights
  assignment whose \<^verbatim>\<open>persist_id\<close> has been set.
\<close>

definition empty_type_document :: jdict where
  "empty_type_document = [''@type'' \<mapsto> JStr []]"

definition example_jsonld :: jdict where
  "example_jsonld =
     [''name'' \<mapsto> JStr ''Ayy'',
      ''@context'' \<mapsto> get_default_ld_context example_deps,
      ''@type'' \<mapsto> JStr ''CreativeWork'',
      ''@id'' \<mapsto> JStr []]"

definition persisted_rights_assignment :: Entity where
  "persisted_rights_assignment = example_rights_assignment\<lparr>persist_id := Some ''id1''\<rparr>"

text \<open>
  A lazy model whose fixed context is \<^verbatim>\<open>[True]\<close>, and a plugin whose backend holds a document
  with the context \<^verbatim>\<open>[1]\<close>.
\<close>

definition bool_context_model :: LazyLoadableModel where
  "bool_context_model =
     \<lparr>lazy_ld_type = ''CreativeWork'', lazy_ld_context = JList [JBool True],
      lazy_validator = accept_all, loaded_model = None\<rparr>"

definition int_context_plugin :: plugin where
  "int_context_plugin =
     stub_plugin (Inr ''id1'')
       (Inr [''@context'' \<mapsto> JList [JNum 1], ''name'' \<mapsto> JStr ''Ayy''])"

section \<open>Construction of models\<close>

lemma Model_init_Inr:
  "Model_init I d (Some (JStr t)) (Some c) (Some v) =
     (case v d of Some e \<Rightarrow> Inl e
      | None \<Rightarrow> Inr \<lparr>data = d, ld_type = t, ld_context = c, validator = v\<rparr>)"
  by (simp add: Model_init_def split: option.splits)



text \<open>
  C10. A \<^verbatim>\<open>LazyLoadableModel\<close> constructed with the empty dict as data has no loaded model,
  and reading its data raises \<^verbatim>\<open>ModelNotYetLoadedError\<close>; constructed with a dict that is not
  empty and that the validator accepts, it is loaded at once and its data is that dict.
\<close>

theorem lazy_init_truthiness:
  "(\<exists>lm. LazyLoadableModel_init I (Some (JStr t)) ctx v (Some Map.empty) = Inr lm
         \<and> loaded_model lm = None
         \<and> LazyLoadableModel_data lm = Inl ModelNotYetLoadedError)
   \<and> (d \<noteq> Map.empty \<and> (case v of None \<Rightarrow> instance_of_dict | Some v' \<Rightarrow> v') d = None \<longrightarrow>
        (\<exists>lm m. LazyLoadableModel_init I (Some (JStr t)) ctx v (Some d) = Inr lm
           \<and> loaded_model lm = Some m \<and> data m = d
           \<and> LazyLoadableModel_data lm = Inr d))"
  by (simp add: LazyLoadableModel_init_def Model_init_Inr LazyLoadableModel_data_def Let_def)

theorem lazy_init_truthiness_witness:
  "[''name'' \<mapsto> JStr ''Ayy''] \<noteq> Map.empty
   \<and> instance_of_dict [''name'' \<mapsto> JStr ''Ayy''] = None
   \<and> (\<exists>lm m. LazyLoadableModel_init example_deps (Some (JStr ''CreativeWork'')) None None
                (Some [''name'' \<mapsto> JStr ''Ayy'']) = Inr lm
         \<and> loaded_model lm = Some m \<and> data m = [''name'' \<mapsto> JStr ''Ayy'']
         \<and> LazyLoadableModel_data lm = Inr [''name'' \<mapsto> JStr ''Ayy''])
   \<and> (\<exists>lm. LazyLoadableModel_init example_deps (Some (JStr ''CreativeWork'')) None None
              (Some Map.empty) = Inr lm
         \<and> loaded_model lm = None
         \<and> LazyLoadableModel_data lm = Inl ModelNotYetLoadedError)"
  using lazy_init_truthiness [of example_deps "''CreativeWork''" None None
      "[''name'' \<mapsto> JStr ''Ayy'']"]
  by (simp add: instance_of_dict_def)

section \<open>Loading a lazy model\<close>

text \<open>
  C4. When a call of \<^verbatim>\<open>load\<close> returns, a second call with the same id and plugin changes
  nothing and calls the plugin no more: the two calls together fetch once from a model
  that was empty and not at all from one that was loaded, and the data read after the
  first call is the data read after the second.
\<close>

theorem load_idempotent:
  assumes "LazyLoadableModel_load I lm pid P tr = (Inr (), lm1, tr1)"
  shows "LazyLoadableModel_load I lm1 pid P tr1 = (Inr (), lm1, tr1)
         \<and> load_calls tr1 = load_calls tr + (if loaded_model lm = None then 1 else 0)
         \<and> load_calls tr1 \<le> load_calls tr + 1
         \<and> (\<exists>d. LazyLoadableModel_data lm1 = Inr d)"
proof (cases "loaded_model lm")
  case (Some m)
  with assms have "lm1 = lm" and "tr1 = tr"
    by (simp_all add: LazyLoadableModel_load_def)
  with Some show ?thesis
    by (simp add: LazyLoadableModel_load_def LazyLoadableModel_data_def)
next
  case None
  with assms obtain m where "lm1 = lm\<lparr>loaded_model := Some m\<rparr>" and "tr1 = tr @ [LoadCall pid]"
    by (auto simp add: LazyLoadableModel_load_def plugin_load_def Let_def
        split: sum.splits if_splits)
  with None show ?thesis
    by (simp add: LazyLoadableModel_load_def LazyLoadableModel_data_def load_calls_def)
qed

lemma example_load:
  "LazyLoadableModel_load example_deps empty_lazy_model ''id1'' example_plugin [] =
     (Inr (), empty_lazy_model\<lparr>loaded_model := Some example_model\<rparr>, [LoadCall ''id1''])"
  by (simp add: LazyLoadableModel_load_def plugin_load_def example_plugin_def stub_plugin_def
      const_load_def extract_ld_data_def get_or_None_def empty_lazy_model_def Model_init_Inr
      accept_all_def example_model_def)

theorem load_idempotent_witness:
  "LazyLoadableModel_load example_deps empty_lazy_model ''id1'' example_plugin [] =
     (Inr (), empty_lazy_model\<lparr>loaded_model := Some example_model\<rparr>, [LoadCall ''id1''])
   \<and> LazyLoadableModel_load example_deps (empty_lazy_model\<lparr>loaded_model := Some example_model\<rparr>)
        ''id1'' example_plugin [LoadCall ''id1''] =
     (Inr (), empty_lazy_model\<lparr>loaded_model := Some example_model\<rparr>, [LoadCall ''id1''])
   \<and> load_calls [LoadCall ''id1''] = 1"
  using load_idempotent [OF example_load] example_load
  by (simp add: empty_lazy_model_def load_calls_def)

text \<open>
  C5, as the code has it. With the model empty and the plugin returning a document: an
  extracted type that is truthy and differs from the fixed type makes \<^verbatim>\<open>load\<close> raise
  \<^verbatim>\<open>ModelDataError\<close>, and so does an extracted context that is truthy and unequal to the
  fixed context; when each of the two is absent, falsy or equal to the fixed value and the
  validator accepts the extracted data, the inner model is built from that data with the
  fixed type, context and validator. Equal and unequal are Python's \<^verbatim>\<open>==\<close> and \<^verbatim>\<open>!=\<close>, which
  read a boolean as its integer.
\<close>

theorem load_sanity_checks:
  assumes "loaded_model lm = None"
    and "load P tr pid = Inr persist_data"
    and "extract_ld_data persist_data None = Inr r"
  shows "(truthy (ex_ld_type r) \<and> \<not> py_eq (ex_ld_type r) (JStr (lazy_ld_type lm)) \<longrightarrow>
            (\<exists>msg. LazyLoadableModel_load I lm pid P tr =
                     (Inl (ModelDataError msg), lm, tr @ [LoadCall pid])))
         \<and> (truthy (ex_ld_context r) \<and> \<not> py_eq (ex_ld_context r) (lazy_ld_context lm) \<longrightarrow>
            (\<exists>msg. LazyLoadableModel_load I lm pid P tr =
                     (Inl (ModelDataError msg), lm, tr @ [LoadCall pid])))
         \<and> ((\<not> truthy (ex_ld_type r) \<or> py_eq (ex_ld_type r) (JStr (lazy_ld_type lm)))
              \<and> (\<not> truthy (ex_ld_context r) \<or> py_eq (ex_ld_context r) (lazy_ld_context lm))
              \<and> lazy_validator lm (ex_data r) = None \<longrightarrow>
            LazyLoadableModel_load I lm pid P tr =
              (Inr (),
               lm\<lparr>loaded_model :=
                     Some \<lparr>data = ex_data r, ld_type = lazy_ld_type lm,
                           ld_context = lazy_ld_context lm, validator = lazy_validator lm\<rparr>\<rparr>,
               tr @ [LoadCall pid]))"
  using assms
  by (auto simp add: LazyLoadableModel_load_def plugin_load_def Let_def Model_init_Inr)

theorem load_sanity_checks_witness:
  "loaded_model empty_lazy_model = None
   \<and> load other_type_plugin [] ''id1'' = Inr [''@type'' \<mapsto> JStr ''Person'', ''name'' \<mapsto> JStr ''Ayy'']
   \<and> truthy (JStr ''Person'') \<and> \<not> py_eq (JStr ''Person'') (JStr (lazy_ld_type empty_lazy_model))
   \<and> (\<exists>msg. LazyLoadableModel_load example_deps empty_lazy_model ''id1'' other_type_plugin [] =
              (Inl (ModelDataError msg), empty_lazy_model, [LoadCall ''id1'']))
   \<and> load example_plugin [] ''id1'' = Inr [''name'' \<mapsto> JStr ''Ayy'']
   \<and> LazyLoadableModel_load example_deps empty_lazy_model ''id1'' example_plugin [] =
       (Inr (), empty_lazy_model\<lparr>loaded_model := Some example_model\<rparr>, [LoadCall ''id1''])"
proof -
  have h1: "loaded_model empty_lazy_model = None"
    by (simp add: empty_lazy_model_def)
  have h2: "load other_type_plugin [] ''id1'' =
              Inr [''@type'' \<mapsto> JStr ''Person'', ''name'' \<mapsto> JStr ''Ayy'']"
    by (simp add: other_type_plugin_def stub_plugin_def const_load_def)
  have h3: "extract_ld_data [''@type'' \<mapsto> JStr ''Person'', ''name'' \<mapsto> JStr ''Ayy''] None =
              Inr \<lparr>ex_data = [''name'' \<mapsto> JStr ''Ayy''], ex_ld_type = JStr ''Person'',
                   ex_ld_context = JNull, ex_ld_id = JNull\<rparr>"
    by (auto simp add: extract_ld_data_def get_or_None_def)
  have h4: "load example_plugin [] ''id1'' = Inr [''name'' \<mapsto> JStr ''Ayy'']"
    by (simp add: example_plugin_def stub_plugin_def const_load_def)
  have h5: "extract_ld_data [''name'' \<mapsto> JStr ''Ayy''] None =
              Inr \<lparr>ex_data = [''name'' \<mapsto> JStr ''Ayy''], ex_ld_type = JNull,
                   ex_ld_context = JNull, ex_ld_id = JNull\<rparr>"
    by (simp add: extract_ld_data_def get_or_None_def)
  show ?thesis
    using load_sanity_checks [OF h1 h2 h3, of example_deps]
      load_sanity_checks [OF h1 h4 h5, of example_deps] h1 h2 h4
    by (simp add: empty_lazy_model_def example_model_def accept_all_def py_eq_def)
qed

theorem load_empty_type_counterexample:
  "load empty_type_plugin [] ''id1'' = Inr empty_type_document
   \<and> empty_type_document ''@type'' = Some (JStr [])
   \<and> \<not> py_eq (JStr []) (JStr (lazy_ld_type empty_lazy_model))
   \<and> fst (LazyLoadableModel_load example_deps empty_lazy_model ''id1'' empty_type_plugin []) =
       Inr ()"
  by (simp add: LazyLoadableModel_load_def plugin_load_def empty_type_plugin_def stub_plugin_def
      const_load_def extract_ld_data_def get_or_None_def empty_lazy_model_def Model_init_Inr
      accept_all_def empty_type_document_def py_eq_def)

text \<open>
  The comparison is Python's: a lazy model whose fixed context is \<^verbatim>\<open>[True]\<close> loads a document
  whose \<^verbatim>\<open>@context\<close> is \<^verbatim>\<open>[1]\<close>, since \<^verbatim>\<open>[1] != [True]\<close> is false, and the model keeps its own
  context.
\<close>

lemma load_bool_int_context:
  "py_eq (JList [JNum 1]) (lazy_ld_context bool_context_model)
   \<and> LazyLoadableModel_load example_deps bool_context_model ''id1'' int_context_plugin [] =
       (Inr (),
        bool_context_model\<lparr>loaded_model :=
          Some \<lparr>data = [''name'' \<mapsto> JStr ''Ayy''], ld_type = ''CreativeWork'',
                ld_context = JList [JBool True], validator = accept_all\<rparr>\<rparr>,
        [LoadCall ''id1''])"
  by (simp add: LazyLoadableModel_load_def plugin_load_def int_context_plugin_def
      stub_plugin_def const_load_def extract_ld_data_def get_or_None_def
      bool_context_model_def Model_init_Inr accept_all_def py_eq_def)

section \<open>Entities\<close>

lemma Entity_load_ALazy:
  "model e = ALazy lm \<Longrightarrow> \<exists>err. Entity_load I e tr = (Inl err, e, tr)"
  by (cases "persist_id e") (simp_all add: Entity_load_def call_LazyLoadableModel_load_def)

text \<open>
  Reading the data of an entity either fails or returns the data its model already holds,
  and then changes neither the entity nor the history of plugin calls.
\<close>

lemma Entity_data_Inr:
  assumes "Entity_data I e tr = (Inr d, e', tr')"
  shows "e' = e \<and> tr' = tr \<and> model_data (model e) = Inr d"
proof (cases "model_data (model e)")
  case (Inr d0)
  with assms show ?thesis by (simp add: Entity_data_def)
next
  case (Inl err)
  then obtain lm where lm: "model e = ALazy lm"
    by (cases "model e") simp_all
  from Entity_load_ALazy [OF lm] obtain err' where "Entity_load I e tr = (Inl err', e, tr)"
    by blast
  with Inl assms show ?thesis
    by (simp add: Entity_data_def split: if_splits)
qed

lemma to_format_Inr:
  assumes "to_format I e data_format tr = (Inr x, e', tr')"
  shows "e' = e \<and> tr' = tr"
proof (cases data_format)
  case Fmt_json
  with assms show ?thesis
    using Entity_data_Inr [of I e tr]
    by (cases "Entity_data I e tr")
      (auto simp add: to_format_def data_format_resolver_def to_json_def split: sum.splits)
next
  case Fmt_jsonld
  with assms show ?thesis
    using Entity_data_Inr [of I e tr]
    by (cases "Entity_data I e tr")
      (auto simp add: to_format_def data_format_resolver_def to_jsonld_def split: sum.splits)
next
  case Fmt_ipld
  with assms show ?thesis
    by (simp add: to_format_def data_format_resolver_def to_ipld_def)
qed

text \<open>
  C7. \<^verbatim>\<open>create\<close> on a \<^verbatim>\<open>RightsAssignment\<close> raises \<^verbatim>\<open>EntityError\<close> whatever the user, the
  format and the state of the entity are; the entity is unchanged and the plugin is not
  called.
\<close>

theorem RightsAssignment_create_fails:
  assumes "cls e = RightsAssignment"
  shows "create I e user data_format tr =
           (Inl (EntityError ''RightsAssignments can only created through transer transactions.''),
            e, tr)"
  using assms by (simp add: create_def RightsAssignment_create_def)

theorem RightsAssignment_create_fails_witness:
  "cls example_rights_assignment = RightsAssignment
   \<and> create example_deps example_rights_assignment (JStr ''u1'') Fmt_jsonld [] =
       (Inl (EntityError ''RightsAssignments can only created through transer transactions.''),
        example_rights_assignment, [])"
proof -
  have h: "cls example_rights_assignment = RightsAssignment"
    by (simp add: example_rights_assignment_def Entity_init_def)
  show ?thesis
    using h RightsAssignment_create_fails [OF h, of example_deps "JStr ''u1''" Fmt_jsonld "[]"]
    by simp
qed

text \<open>
  C1, as the code has it. On an entity of a class other than \<^verbatim>\<open>RightsAssignment\<close> whose
  \<^verbatim>\<open>persist_id\<close> is set, \<^verbatim>\<open>create\<close> raises \<^verbatim>\<open>EntityPreviouslyCreatedError\<close> carrying that id;
  the entity, and so its \<^verbatim>\<open>persist_id\<close>, is unchanged and the plugin is not called.
\<close>

theorem create_previously_created:
  assumes "cls e \<noteq> RightsAssignment" and "persist_id e = Some pid"
  shows "create I e user data_format tr = (Inl (EntityPreviouslyCreatedError pid), e, tr)"
  using assms by (cases "cls e") (simp_all add: create_def Entity_create_def)

theorem create_previously_created_witness:
  "cls (example_work\<lparr>persist_id := Some ''id1''\<rparr>) \<noteq> RightsAssignment
   \<and> persist_id (example_work\<lparr>persist_id := Some ''id1''\<rparr>) = Some ''id1''
   \<and> create example_deps (example_work\<lparr>persist_id := Some ''id1''\<rparr>) (JStr ''u1'') Fmt_jsonld [] =
       (Inl (EntityPreviouslyCreatedError ''id1''), example_work\<lparr>persist_id := Some ''id1''\<rparr>, [])"
proof -
  have h1: "cls (example_work\<lparr>persist_id := Some ''id1''\<rparr>) \<noteq> RightsAssignment"
    by (simp add: example_work_def Entity_init_def)
  have h2: "persist_id (example_work\<lparr>persist_id := Some ''id1''\<rparr>) = Some ''id1''"
    by simp
  show ?thesis
    using h1 h2 create_previously_created [OF h1 h2, of example_deps "JStr ''u1''" Fmt_jsonld "[]"]
    by simp
qed

theorem create_rights_assignment_counterexample:
  "persist_id persisted_rights_assignment = Some ''id1''
   \<and> fst (create example_deps persisted_rights_assignment (JStr ''u1'') Fmt_jsonld [])
       \<noteq> Inl (EntityPreviouslyCreatedError ''id1'')"
  by (simp add: create_def RightsAssignment_create_def persisted_rights_assignment_def
      example_rights_assignment_def Entity_init_def)

text \<open>
  Once \<^verbatim>\<open>create\<close> has returned an id on an entity of any class, a further call raises
  \<^verbatim>\<open>EntityPreviouslyCreatedError\<close> with that id and leaves the entity as the first call
  left it.
\<close>

lemma create_twice:
  assumes "create I e user data_format tr = (Inr pid, e1, tr1)"
  shows "persist_id e1 = Some pid
         \<and> create I e1 user' data_format' tr2 = (Inl (EntityPreviouslyCreatedError pid), e1, tr2)"
proof -
  from assms have c: "cls e \<noteq> RightsAssignment"
    by (auto simp add: create_def RightsAssignment_create_def)
  with assms have ec: "Entity_create I e user data_format tr = (Inr pid, e1, tr1)"
    by (cases "cls e") (simp_all add: create_def)
  then obtain x where "to_format I e data_format tr = (Inr x, e, tr)"
    and e1: "e1 = e\<lparr>persist_id := Some pid\<rparr>"
    using to_format_Inr [of I e data_format tr]
    by (cases "to_format I e data_format tr")
      (auto simp add: Entity_create_def split: option.splits sum.splits prod.splits)
  from e1 c have "cls e1 \<noteq> RightsAssignment" and "persist_id e1 = Some pid"
    by simp_all
  then show ?thesis
    by (cases "cls e1") (simp_all add: create_def Entity_create_def)
qed

text \<open>
  C3, as the code has it. When the entity is serialised and \<^verbatim>\<open>plugin.save\<close> then raises,
  \<^verbatim>\<open>create\<close> raises that same exception, not wrapped, after the one call of the plugin,
  and the entity is unchanged with its \<^verbatim>\<open>persist_id\<close> still unset.
\<close>

theorem create_save_failure:
  assumes "cls e \<noteq> RightsAssignment"
    and "persist_id e = None"
    and "to_format I e data_format tr = (Inr entity_data, e', tr')"
    and "save (plugin e') tr' entity_data user = Inl err"
  shows "create I e user data_format tr = (Inl err, e, tr @ [SaveCall entity_data user])
         \<and> persist_id e = None \<and> e' = e \<and> tr' = tr"
proof -
  from to_format_Inr [OF assms(3)] have same: "e' = e" "tr' = tr"
    by simp_all
  from assms(1) have "create I e user data_format tr = Entity_create I e user data_format tr"
    by (cases "cls e") (simp_all add: create_def)
  with assms same show ?thesis
    by (simp add: Entity_create_def plugin_save_def)
qed

lemma example_to_jsonld:
  "to_format example_deps unsaved_work Fmt_jsonld [] = (Inr example_jsonld, unsaved_work, [])"
  by (simp add: to_format_def data_format_resolver_def to_jsonld_def Entity_data_def
      unsaved_work_def Entity_init_def example_model_def example_jsonld_def)

lemma example_save_fails:
  "save (plugin unsaved_work) [] example_jsonld (JStr ''u1'') = Inl (BackendError ''backend down'')"
  by (simp add: unsaved_work_def Entity_init_def failing_plugin_def stub_plugin_def
      const_save_def)

theorem create_save_failure_witness:
  "cls unsaved_work \<noteq> RightsAssignment
   \<and> persist_id unsaved_work = None
   \<and> to_format example_deps unsaved_work Fmt_jsonld [] = (Inr example_jsonld, unsaved_work, [])
   \<and> save (plugin unsaved_work) [] example_jsonld (JStr ''u1'') = Inl (BackendError ''backend down'')
   \<and> create example_deps unsaved_work (JStr ''u1'') Fmt_jsonld [] =
       (Inl (BackendError ''backend down''), unsaved_work,
        [SaveCall example_jsonld (JStr ''u1'')])"
proof -
  have h1: "cls unsaved_work \<noteq> RightsAssignment"
    by (simp add: unsaved_work_def Entity_init_def)
  have h2: "persist_id unsaved_work = None"
    by (simp add: unsaved_work_def Entity_init_def)
  show ?thesis
    using h1 h2 example_to_jsonld example_save_fails
      create_save_failure [OF h1 h2 example_to_jsonld example_save_fails]
    by simp
qed

theorem create_not_wrapped_counterexample:
  "save (plugin unsaved_work) [] example_jsonld (JStr ''u1'') = Inl (BackendError ''backend down'')
   \<and> fst (create example_deps unsaved_work (JStr ''u1'') Fmt_jsonld []) =
       Inl (BackendError ''backend down'')
   \<and> fst (create example_deps unsaved_work (JStr ''u1'') Fmt_jsonld []) \<noteq>
       Inl (EntityCreationError (Some (BackendError ''backend down'')))"
  by (simp add: create_def Entity_create_def to_format_def data_format_resolver_def
      to_jsonld_def Entity_data_def plugin_save_def unsaved_work_def Entity_init_def
      example_model_def failing_plugin_def stub_plugin_def const_save_def)

text \<open>
  C6. When the data \<open>d\<close> of an entity can be read, \<^verbatim>\<open>to_json\<close> returns \<open>d\<close> with \<^verbatim>\<open>type\<close>
  set to the type of the model, and so with the \<^verbatim>\<open>@context\<close> entry of \<open>d\<close> as it was;
  \<^verbatim>\<open>to_jsonld\<close> returns \<open>d\<close> with \<^verbatim>\<open>@context\<close> set to the context of the model, \<^verbatim>\<open>@type\<close> to
  its type and \<^verbatim>\<open>@id\<close> to the empty string. Both leave the entity and its data as they
  were: the result is a copy.
\<close>

theorem to_json_to_jsonld:
  assumes "Entity_data I e tr = (Inr d, e', tr')"
  shows "to_json I e tr = (Inr (d(''type'' \<mapsto> JStr (model_ld_type (model e)))), e, tr)
         \<and> (d(''type'' \<mapsto> JStr (model_ld_type (model e)))) ''@context'' = d ''@context''
         \<and> to_jsonld I e tr =
             (Inr (d(''@context'' \<mapsto> model_ld_context (model e),
                     ''@type'' \<mapsto> JStr (model_ld_type (model e)),
                     ''@id'' \<mapsto> JStr [])),
              e, tr)
         \<and> model_data (model e) = Inr d"
proof -
  from Entity_data_Inr [OF assms] have same: "e' = e" "tr' = tr" "model_data (model e) = Inr d"
    by simp_all
  with assms have "Entity_data I e tr = (Inr d, e, tr)"
    by simp
  with same(3) show ?thesis
    by (simp add: to_json_def to_jsonld_def)
qed

lemma example_work_data:
  "Entity_data example_deps example_work [] = (Inr [''name'' \<mapsto> JStr ''Ayy''], example_work, [])"
  by (simp add: Entity_data_def example_work_def Entity_init_def example_model_def)

theorem to_json_to_jsonld_witness:
  "Entity_data example_deps example_work [] = (Inr [''name'' \<mapsto> JStr ''Ayy''], example_work, [])
   \<and> to_json example_deps example_work [] =
       (Inr [''name'' \<mapsto> JStr ''Ayy'', ''type'' \<mapsto> JStr ''CreativeWork''], example_work, [])
   \<and> to_jsonld example_deps example_work [] = (Inr example_jsonld, example_work, [])"
  using to_json_to_jsonld [OF example_work_data] example_work_data
  by (simp add: example_work_def Entity_init_def example_model_def example_jsonld_def)

section \<open>The model factories\<close>







section \<open>Entities from a persisted id\<close>

text \<open>
  No factory can be called with \<^verbatim>\<open>model_cls\<close> as its only keyword: each of them reaches a
  function whose keyword-only parameter \<^verbatim>\<open>data\<close> has no default.
\<close>

lemma generate_model_without_data:
  assumes "kw_data kw = None"
  shows "\<exists>msg. generate_model I c kw = Inl (TypeError msg)"
  using assms
  by (cases c)
    (simp_all add: work_model_factory_def manifestation_model_factory_def
      right_model_factory_def copyright_model_factory_def rights_assignment_model_factory_def
      model_factory_def)

lemma from_persist_id_raises:
  "\<exists>msg. from_persist_id I c pid force_load P tr = (Inl (TypeError msg), tr)"
proof -
  let ?kw = "\<lparr>kw_data = None, kw_ld_type = None, kw_ld_context = None,
              kw_model_cls = Some LazyLoadableModel_cls, kw_validator = None\<rparr>"
  from generate_model_without_data [of ?kw I c]
  obtain msg where "generate_model I c ?kw = Inl (TypeError msg)"
    by auto
  then show ?thesis
    by (simp add: from_persist_id_def)
qed

text \<open>
  C2, at an input. \<^verbatim>\<open>Work.from_persist_id('id1', plugin=P)\<close> raises \<^verbatim>\<open>TypeError\<close> and returns no
  entity; the plugin is not called.
\<close>

theorem from_persist_id_failing_input:
  "from_persist_id example_deps Work ''id1'' False example_plugin [] =
     (Inl (TypeError ''_model_factory() missing 1 required keyword-only argument: data''), [])"
  by (simp add: from_persist_id_def work_model_factory_def model_factory_def)

text \<open>
  An entity that does hold an empty lazy model and an id cannot load it either:
  \<^verbatim>\<open>Entity.load\<close> calls the model's \<^verbatim>\<open>load\<close> without the id and the plugin, so reading the
  data raises \<^verbatim>\<open>TypeError\<close> and \<^verbatim>\<open>plugin.load\<close> is never called. Its status is read from the
  plugin without a load.
\<close>

lemma Entity_data_unloaded:
  assumes "model e = ALazy lm" and "loaded_model lm = None" and "persist_id e = Some pid"
  shows "Entity_data I e tr = (Inl (TypeError ''load() missing required arguments''), e, tr)"
  using assms
  by (simp add: Entity_data_def LazyLoadableModel_data_def Entity_load_def
      call_LazyLoadableModel_load_def)

lemma lazy_work_data:
  "Entity_data example_deps lazy_work [] =
     (Inl (TypeError ''load() missing required arguments''), lazy_work, [])"
  by (rule Entity_data_unloaded [where lm = empty_lazy_model and pid = "''id1''"])
    (simp_all add: lazy_work_def Entity_init_def empty_lazy_model_def)

lemma lazy_work_status:
  "Entity_status lazy_work [] = (Inr (JStr ''persisted''), [StatusCall ''id1''])"
  by (simp add: Entity_status_def plugin_get_status_def lazy_work_def Entity_init_def
      example_plugin_def stub_plugin_def const_get_status_def)

end
